theory Spec2Isabelle
  imports Complex_Main "HOL-Library.Sublist"
begin

section \<open>Python values used by the alerting code\<close>

text \<open>
  Exceptions are values. \<open>ConnectionError\<close>, \<open>Timeout\<close> and \<open>HTTPError\<close> are the
  subclasses of \<open>requests.exceptions.RequestException\<close> that a fetch raises on a network
  error, on a timeout and (from \<open>raise_for_status\<close>) on an error status; \<open>OtherError\<close>
  stands for every exception outside the classes named here.
\<close>

datatype exn =
    KeyError
  | IndexError
  | ConnectionError
  | Timeout
  | HTTPError
  | ValidationError
  | OverflowError
  | OtherError

fun is_RequestException :: "exn \<Rightarrow> bool" where
  "is_RequestException ConnectionError = True"
| "is_RequestException Timeout = True"
| "is_RequestException HTTPError = True"
| "is_RequestException _ = False"

text \<open>
  Timestamps are microseconds since the epoch, the resolution of Python's \<open>datetime\<close>,
  on the UTC clock that \<open>timezone.now()\<close> reads. A \<open>datetime\<close> lies between
  0001-01-01 00:00:00 and 9999-12-31 23:59:59.999999.

  \<open>timedelta(days=d)\<close> and \<open>timedelta(hours=h)\<close> raise \<open>OverflowError\<close> when the
  normalised number of days has a magnitude above 999999999; otherwise they are the
  length in microseconds. \<open>t - delta\<close> raises \<open>OverflowError\<close> when the result is not
  a \<open>datetime\<close>.
\<close>

type_synonym timestamp = int






text \<open>
  \<open>str.lower()\<close> on the ASCII letters; a string is a list of bytes (UTF-8), and bytes
  outside \<open>A..Z\<close> are left alone. \<open>needle in s\<close> on strings is \<open>sublist needle s\<close>.
\<close>

definition lower_char :: "char \<Rightarrow> char" where
  "lower_char c =
     (case map_of (zip ''ABCDEFGHIJKLMNOPQRSTUVWXYZ'' ''abcdefghijklmnopqrstuvwxyz'') c of
        Some l \<Rightarrow> l
      | None \<Rightarrow> c)"

definition lower :: "string \<Rightarrow> string" where
  "lower s = map lower_char s"

text \<open>The non-ASCII characters of the source's string literals, as UTF-8 bytes.\<close>

definition degree_sign :: string where
  "degree_sign = [CHR 0xC2, CHR 0xB0]"

definition sun_emoji :: string where
  "sun_emoji = [CHR 0xF0, CHR 0x9F, CHR 0x8C, CHR 0xA4, CHR 0xEF, CHR 0xB8, CHR 0x8F]"

definition siren_emoji :: string where
  "siren_emoji = [CHR 0xF0, CHR 0x9F, CHR 0x9A, CHR 0xA8]"

definition warning_emoji :: string where
  "warning_emoji = [CHR 0xE2, CHR 0x9A, CHR 0xA0, CHR 0xEF, CHR 0xB8, CHR 0x8F]"

section \<open>models.py\<close>

text \<open>
  A \<open>FloatField(null=True)\<close> is a \<open>real option\<close>: \<open>None\<close> is SQL NULL, and the finite
  floats compare as the reals they denote. A foreign key to a user is the user's key or,
  where the code reads the user back from the row, the user. Fields that the modelled
  code never reads (avatar, location, coordinates, verification token, icon, humidity
  and the like) are left out.
\<close>

record user =
  user_id :: nat
  username :: string
  email :: string

record user_profile =
  is_email_verified :: bool
  email_notifications :: bool
  weather_alerts :: bool
  daily_summary :: bool
  severe_weather_alerts :: bool
  is_deactivated :: bool

record favorite_city =
  fc_user :: nat
  city_name :: string
  country :: string
  temperature_threshold_high :: "real option"
  temperature_threshold_low :: "real option"
  notify_rain :: bool
  notify_extreme_weather :: bool

text \<open>An \<open>EmailMultiAlternatives\<close> with its HTML alternative attached.\<close>

record email_message =
  em_subject :: string
  em_body :: string
  em_from_email :: string
  em_to :: "string list"
  em_alternative :: string

record weather_history =
  wh_city_name :: string
  searched_at :: timestamp

record weather_forecast =
  wf_city_name :: string
  last_updated :: timestamp

text \<open>
  A \<open>WeatherAlert\<close> created with \<open>user=user\<close> carries that user object, and
  \<open>alert.user\<close> returns it.
\<close>

record weather_alert =
  wa_id :: nat
  wa_user :: user
  wa_city_name :: string
  alert_type :: string
  wa_message :: string
  wa_temperature :: "real option"
  weather_condition :: string
  wa_created_at :: timestamp
  wa_is_sent :: bool
  wa_sent_at :: "timestamp option"

record email_notification =
  en_user :: user
  en_subject :: string
  en_message :: string
  email_type :: string
  en_is_sent :: bool
  en_sent_at :: "timestamp option"
  en_created_at :: timestamp

text \<open>
  The persistent store, one field per model manager, together with the messages handed
  to the mail transport so far (delivered or not). \<open>UserProfile\<close> is one-to-one with
  \<open>User\<close>, so the profiles are a map from the user's key.
\<close>

record world =
  User_objects :: "user list"
  UserProfile_objects :: "nat \<rightharpoonup> user_profile"
  FavoriteCity_objects :: "favorite_city list"
  WeatherHistory_objects :: "weather_history list"
  WeatherForecast_objects :: "weather_forecast list"
  WeatherAlert_objects :: "weather_alert list"
  EmailNotification_objects :: "email_notification list"
  next_alert_id :: nat
  send_attempts :: "email_message list"

section \<open>The weather payload\<close>

text \<open>
  The JSON object returned by the provider, as far as the alerting code reads it:
  \<open>weather_data['main']['temp']\<close> and \<open>weather_data['weather'][0]['description']\<close>.
  A missing key is \<open>None\<close>, so that every \<open>KeyError\<close> and \<open>IndexError\<close> of the
  source is a branch of the model.
\<close>

record main_block =
  temp :: "real option"

record weather_item =
  description :: "string option"

record weather_data =
  main :: "main_block option"
  weather :: "weather_item list option"

text \<open>
  The first two statements of both evaluators:
  \<open>temperature = weather_data['main']['temp']\<close> and
  \<open>description = weather_data['weather'][0]['description'].lower()\<close>.
\<close>

definition get_temperature :: "weather_data \<Rightarrow> exn + real" where
  "get_temperature wd =
     (case main wd of
        None \<Rightarrow> Inl KeyError
      | Some m \<Rightarrow> (case temp m of None \<Rightarrow> Inl KeyError | Some t \<Rightarrow> Inr t))"

definition get_description :: "weather_data \<Rightarrow> exn + string" where
  "get_description wd =
     (case weather wd of
        None \<Rightarrow> Inl KeyError
      | Some [] \<Rightarrow> Inl IndexError
      | Some (w # _) \<Rightarrow> (case description w of None \<Rightarrow> Inl KeyError | Some d \<Rightarrow> Inr d))"

section \<open>The threshold evaluator of the sweep command\<close>

text \<open>
  \<open>city.temperature_threshold_high and temperature > city.temperature_threshold_high\<close>:
  Python's \<open>and\<close> tests the truthiness of the threshold first, and both \<open>None\<close> and
  \<open>0.0\<close> are falsy; the comparison runs on a truthy threshold only.
\<close>

definition threshold_and_above :: "real option \<Rightarrow> real \<Rightarrow> bool" where
  "threshold_and_above th temperature =
     (case th of None \<Rightarrow> False | Some h \<Rightarrow> h \<noteq> 0 \<and> temperature > h)"

definition threshold_and_below :: "real option \<Rightarrow> real \<Rightarrow> bool" where
  "threshold_and_below th temperature =
     (case th of None \<Rightarrow> False | Some l \<Rightarrow> l \<noteq> 0 \<and> temperature < l)"

definition severe_conditions :: "string list" where
  "severe_conditions = [''storm'', ''thunder'', ''severe'', ''tornado'', ''hurricane'', ''hail'']"

text \<open>
  \<open>str_float\<close> is Python's formatting of a float inside an f-string; \<open>{None}\<close> prints
  \<open>None\<close>.
\<close>

definition str_threshold :: "(real \<Rightarrow> string) \<Rightarrow> real option \<Rightarrow> string" where
  "str_threshold str_float th = (case th of None \<Rightarrow> ''None'' | Some h \<Rightarrow> str_float h)"

definition analyze_weather_conditions ::
  "(real \<Rightarrow> string) \<Rightarrow> weather_data \<Rightarrow> favorite_city \<Rightarrow> exn + (string \<times> string) list" where
  "analyze_weather_conditions str_float wd city =
     (case get_temperature wd of
        Inl e \<Rightarrow> Inl e
      | Inr temperature \<Rightarrow>
     (case get_description wd of
        Inl e \<Rightarrow> Inl e
      | Inr d \<Rightarrow>
          let description = lower d;
              alerts_needed = [];
              alerts_needed =
                (if threshold_and_above (temperature_threshold_high city) temperature
                 then alerts_needed @
                   [(''temperature_high'',
                     ''High temperature: '' @ str_float temperature @ degree_sign
                       @ ''C (threshold: ''
                       @ str_threshold str_float (temperature_threshold_high city)
                       @ degree_sign @ ''C)'')]
                 else alerts_needed);
              alerts_needed =
                (if threshold_and_below (temperature_threshold_low city) temperature
                 then alerts_needed @
                   [(''temperature_low'',
                     ''Low temperature: '' @ str_float temperature @ degree_sign
                       @ ''C (threshold: ''
                       @ str_threshold str_float (temperature_threshold_low city)
                       @ degree_sign @ ''C)'')]
                 else alerts_needed);
              alerts_needed =
                (if notify_rain city \<and> sublist ''rain'' description
                 then alerts_needed @ [(''rain'', ''Rain expected: '' @ description)]
                 else alerts_needed);
              alerts_needed =
                (if notify_extreme_weather city
                    \<and> list_ex (\<lambda>condition. sublist condition description) severe_conditions
                 then alerts_needed @ [(''severe'', ''Severe weather: '' @ description)]
                 else alerts_needed)
          in Inr alerts_needed))"

section \<open>email_service.py: the notification service\<close>

text \<open>
  The external collaborators of the service. \<open>http_get city\<close> is the outcome of the
  three statements in the \<open>try\<close> block of \<open>get_weather_data\<close> (\<open>requests.get\<close> with
  its timeout, \<open>raise_for_status\<close>, \<open>response.json()\<close>): the exception raised, or the
  decoded payload. \<open>render_to_string\<close> renders the alert template and may raise.
  \<open>email_send\<close> is \<open>email.send(fail_silently=False)\<close>: given the messages handed over
  before and the message, the exception the transport raises, or \<open>None\<close> when the
  message is delivered. \<open>timezone_now\<close> is the clock, read as one instant during an
  operation of the service.
\<close>

record env =
  http_get :: "string \<Rightarrow> exn + weather_data"
  render_to_string :: "string \<Rightarrow> user \<Rightarrow> weather_alert \<Rightarrow> exn + string"
  strip_tags :: "string \<Rightarrow> string"
  email_send :: "email_message list \<Rightarrow> email_message \<Rightarrow> exn option"
  str_float :: "real \<Rightarrow> string"
  title :: "string \<Rightarrow> string"
  timezone_now :: timestamp
  DEFAULT_FROM_EMAIL :: string

definition can_send_notification :: "world \<Rightarrow> user \<Rightarrow> bool" where
  "can_send_notification w usr =
     (case UserProfile_objects w (user_id usr) of
        Some profile \<Rightarrow>
          email_notifications profile \<and> \<not> is_deactivated profile \<and> is_email_verified profile
      | None \<Rightarrow> False)"

text \<open>
  Only a \<open>RequestException\<close> is caught and turned into \<open>None\<close>; any other exception
  leaves the function (\<open>Inl\<close>).
\<close>

definition get_weather_data :: "env \<Rightarrow> string \<Rightarrow> exn + weather_data option" where
  "get_weather_data env city =
     (case http_get env city of
        Inr json \<Rightarrow> Inr (Some json)
      | Inl e \<Rightarrow> if is_RequestException e then Inr None else Inl e)"

text \<open>
  \<open>alert.save()\<close> writes the row with the alert's key, and inserts it when the table
  has no such row.
\<close>

definition save_alert :: "weather_alert \<Rightarrow> weather_alert list \<Rightarrow> weather_alert list" where
  "save_alert a tbl =
     (if wa_id a \<in> set (map wa_id tbl)
      then map (\<lambda>r. if wa_id r = wa_id a then a else r) tbl
      else tbl @ [a])"

text \<open>
  The whole body is inside \<open>try ... except Exception\<close>, so each exception is a branch
  returning \<open>False\<close>. The result is the new world and the returned flag.
\<close>

definition send_weather_alert_email :: "env \<Rightarrow> world \<Rightarrow> weather_alert \<Rightarrow> world \<times> bool" where
  "send_weather_alert_email env w alert =
     (let usr = wa_user alert in
      if \<not> can_send_notification w usr then (w, False)
      else
        let subject = sun_emoji @ '' Weather Alert for '' @ wa_city_name alert;
            subject = (if alert_type alert = ''severe''
                       then siren_emoji @ '' URGENT: '' @ subject else subject)
        in case render_to_string env ''weatherapp/emails/weather_alert.html'' usr alert of
             Inl e \<Rightarrow> (w, False)
           | Inr html_content \<Rightarrow>
               let text_content = strip_tags env html_content;
                   email = \<lparr>em_subject = subject, em_body = text_content,
                            em_from_email = DEFAULT_FROM_EMAIL env, em_to = [email usr],
                            em_alternative = html_content\<rparr>;
                   w1 = w\<lparr>send_attempts := send_attempts w @ [email]\<rparr>
               in case email_send env (send_attempts w) email of
                    Some e \<Rightarrow> (w1, False)
                  | None \<Rightarrow>
                      let alert1 = alert\<lparr>wa_is_sent := True,
                                         wa_sent_at := Some (timezone_now env)\<rparr>;
                          w2 = w1\<lparr>WeatherAlert_objects :=
                                    save_alert alert1 (WeatherAlert_objects w1)\<rparr>;
                          w3 = w2\<lparr>EmailNotification_objects :=
                                    EmailNotification_objects w2 @
                                      [\<lparr>en_user = usr, en_subject = subject,
                                        en_message = text_content,
                                        email_type = ''weather_alert'', en_is_sent = True,
                                        en_sent_at = Some (timezone_now env),
                                        en_created_at = timezone_now env\<rparr>]\<rparr>
                      in (w3, True))"

text \<open>
  \<open>WeatherAlert.objects.create\<close>: a fresh key, \<open>created_at\<close> from the clock, and the
  model's defaults \<open>is_sent = False\<close>, \<open>sent_at = None\<close>; the caller passes \<open>None\<close>
  and the empty string for the \<open>temperature\<close> and \<open>weather_condition\<close> it leaves out.
\<close>

definition WeatherAlert_create ::
  "env \<Rightarrow> world \<Rightarrow> user \<Rightarrow> string \<Rightarrow> string \<Rightarrow> string \<Rightarrow> real option \<Rightarrow> string
     \<Rightarrow> world \<times> weather_alert" where
  "WeatherAlert_create env w usr city kind message temperature condition =
     (let alert = \<lparr>wa_id = next_alert_id w, wa_user = usr, wa_city_name = city,
                    alert_type = kind, wa_message = message, wa_temperature = temperature,
                    weather_condition = condition, wa_created_at = timezone_now env,
                    wa_is_sent = False, wa_sent_at = None\<rparr>
      in (w\<lparr>WeatherAlert_objects := WeatherAlert_objects w @ [alert],
            next_alert_id := Suc (next_alert_id w)\<rparr>, alert))"

definition create_temperature_alert ::
  "env \<Rightarrow> world \<Rightarrow> user \<Rightarrow> string \<Rightarrow> real \<Rightarrow> string \<Rightarrow> world" where
  "create_temperature_alert env w usr city temperature kind =
     (if \<not> can_send_notification w usr then w
      else
        let temp_type = (if kind = ''high'' then ''high'' else ''low'');
            threshold = (if kind = ''high'' then ''above'' else ''below'');
            message = ''Temperature alert for '' @ city @ '': '' @ str_float env temperature
                        @ degree_sign @ ''C - '' @ threshold @ '' your threshold'';
            (w1, alert) = WeatherAlert_create env w usr city (''temperature_'' @ temp_type)
                            message (Some temperature) []
        in fst (send_weather_alert_email env w1 alert))"

definition create_rain_alert :: "env \<Rightarrow> world \<Rightarrow> user \<Rightarrow> string \<Rightarrow> string \<Rightarrow> world" where
  "create_rain_alert env w usr city descr =
     (if \<not> can_send_notification w usr then w
      else
        let message = ''Rain alert for '' @ city @ '': '' @ title env descr;
            (w1, alert) = WeatherAlert_create env w usr city ''rain'' message None descr
        in fst (send_weather_alert_email env w1 alert))"

definition create_severe_weather_alert ::
  "env \<Rightarrow> world \<Rightarrow> user \<Rightarrow> string \<Rightarrow> string \<Rightarrow> world" where
  "create_severe_weather_alert env w usr city descr =
     (if \<not> can_send_notification w usr then w
      else
        let message = warning_emoji @ '' SEVERE WEATHER ALERT for '' @ city @ '': ''
                        @ title env descr;
            (w1, alert) = WeatherAlert_create env w usr city ''severe'' message None descr
        in fst (send_weather_alert_email env w1 alert))"

text \<open>
  The service's own evaluator. It reads the temperature and the description, then runs
  the four tests in turn, each dispatching at once. Everything is inside
  \<open>try ... except Exception\<close>: a payload without the fields it reads is logged and
  leaves the world as it was. Its list of severe conditions is written out in the
  source, apart from the one of the sweep command.
\<close>

definition check_weather_conditions_for_alerts ::
  "env \<Rightarrow> world \<Rightarrow> user \<Rightarrow> favorite_city \<Rightarrow> weather_data \<Rightarrow> world" where
  "check_weather_conditions_for_alerts env w usr favorite_city wd =
     (case get_temperature wd of
        Inl e \<Rightarrow> w
      | Inr temperature \<Rightarrow>
     (case get_description wd of
        Inl e \<Rightarrow> w
      | Inr d \<Rightarrow>
          let description = lower d;
              w = (if threshold_and_above (temperature_threshold_high favorite_city) temperature
                   then create_temperature_alert env w usr (city_name favorite_city)
                          temperature ''high''
                   else w);
              w = (if threshold_and_below (temperature_threshold_low favorite_city) temperature
                   then create_temperature_alert env w usr (city_name favorite_city)
                          temperature ''low''
                   else w);
              w = (if notify_rain favorite_city \<and> sublist ''rain'' description
                   then create_rain_alert env w usr (city_name favorite_city) description
                   else w);
              w = (if notify_extreme_weather favorite_city
                      \<and> list_ex (\<lambda>condition. sublist condition description)
                            [''storm'', ''thunder'', ''severe'', ''tornado'', ''hurricane'']
                   then create_severe_weather_alert env w usr (city_name favorite_city)
                          description
                   else w)
          in w))"

text \<open>\<open>FavoriteCity.objects.filter(user=user)\<close>.\<close>

definition favorite_cities_of :: "world \<Rightarrow> user \<Rightarrow> favorite_city list" where
  "favorite_cities_of w usr = filter (\<lambda>c. fc_user c = user_id usr) (FavoriteCity_objects w)"

text \<open>
  The body of the loop of \<open>check_weather_alerts_for_user\<close> for one city. The test
  \<open>weather_data and 'main' in weather_data\<close> fails on \<open>None\<close> and on a payload without
  the key. An exception of \<open>get_weather_data\<close> is not caught here.
\<close>

definition check_city_for_user :: "env \<Rightarrow> user \<Rightarrow> world \<Rightarrow> favorite_city \<Rightarrow> exn + world" where
  "check_city_for_user env usr w city =
     (case get_weather_data env (city_name city) of
        Inl e \<Rightarrow> Inl e
      | Inr weather_data \<Rightarrow>
          (case weather_data of
             None \<Rightarrow> Inr w
           | Some wd \<Rightarrow>
               if main wd \<noteq> None
               then Inr (check_weather_conditions_for_alerts env w usr city wd)
               else Inr w))"

fun check_cities_for_user ::
  "env \<Rightarrow> user \<Rightarrow> world \<Rightarrow> favorite_city list \<Rightarrow> world \<times> exn option" where
  "check_cities_for_user env usr w [] = (w, None)"
| "check_cities_for_user env usr w (city # rest) =
     (case check_city_for_user env usr w city of
        Inl e \<Rightarrow> (w, Some e)
      | Inr w1 \<Rightarrow> check_cities_for_user env usr w1 rest)"

definition check_weather_alerts_for_user :: "env \<Rightarrow> world \<Rightarrow> user \<Rightarrow> world \<times> exn option" where
  "check_weather_alerts_for_user env w usr =
     (if \<not> can_send_notification w usr then (w, None)
      else check_cities_for_user env usr w (favorite_cities_of w usr))"

section \<open>send_weather_alerts.py: the alert sweep\<close>

text \<open>
  The \<open>if/elif\<close> chain that dispatches one intent outside dry-run mode. It reads the
  payload again, so a read may raise; an intent of another type dispatches nothing.
\<close>

definition dispatch_alert ::
  "env \<Rightarrow> user \<Rightarrow> favorite_city \<Rightarrow> weather_data \<Rightarrow> world \<Rightarrow> string \<Rightarrow> exn + world" where
  "dispatch_alert env usr city wd w kind =
     (if kind = ''temperature_high'' then
        (case get_temperature wd of
           Inl e \<Rightarrow> Inl e
         | Inr t \<Rightarrow> Inr (create_temperature_alert env w usr (city_name city) t ''high''))
      else if kind = ''temperature_low'' then
        (case get_temperature wd of
           Inl e \<Rightarrow> Inl e
         | Inr t \<Rightarrow> Inr (create_temperature_alert env w usr (city_name city) t ''low''))
      else if kind = ''rain'' then
        (case get_description wd of
           Inl e \<Rightarrow> Inl e
         | Inr d \<Rightarrow> Inr (create_rain_alert env w usr (city_name city) d))
      else if kind = ''severe'' then
        (case get_description wd of
           Inl e \<Rightarrow> Inl e
         | Inr d \<Rightarrow> Inr (create_severe_weather_alert env w usr (city_name city) d))
      else Inr w)"

text \<open>
  The loop over \<open>alerts_needed\<close>, on the world and the counter \<open>alerts_sent\<close>. In
  dry-run mode an intent is only printed. An exception ends the loop and is returned
  beside what was done before it.
\<close>

fun dispatch_alerts ::
  "env \<Rightarrow> bool \<Rightarrow> user \<Rightarrow> favorite_city \<Rightarrow> weather_data \<Rightarrow> world \<times> nat
     \<Rightarrow> (string \<times> string) list \<Rightarrow> (world \<times> nat) \<times> exn option" where
  "dispatch_alerts env dry_run usr city wd (w, alerts_sent) [] = ((w, alerts_sent), None)"
| "dispatch_alerts env dry_run usr city wd (w, alerts_sent) ((kind, message) # rest) =
     (if dry_run then dispatch_alerts env dry_run usr city wd (w, alerts_sent) rest
      else
        (case dispatch_alert env usr city wd w kind of
           Inl e \<Rightarrow> ((w, alerts_sent), Some e)
         | Inr w1 \<Rightarrow> dispatch_alerts env dry_run usr city wd (w1, alerts_sent + 1) rest))"

text \<open>
  The body of the loop of \<open>check_user_alerts\<close> for one city: it is inside
  \<open>try ... except Exception\<close>, so every exception ends the city, keeping what was done.
\<close>

definition check_city :: "env \<Rightarrow> bool \<Rightarrow> user \<Rightarrow> world \<times> nat \<Rightarrow> favorite_city \<Rightarrow> world \<times> nat" where
  "check_city env dry_run usr acc city =
     (case get_weather_data env (city_name city) of
        Inl e \<Rightarrow> acc
      | Inr weather_data \<Rightarrow>
          (case weather_data of
             None \<Rightarrow> acc
           | Some wd \<Rightarrow>
               if main wd \<noteq> None then
                 (case analyze_weather_conditions (str_float env) wd city of
                    Inl e \<Rightarrow> acc
                  | Inr alerts_needed \<Rightarrow>
                      fst (dispatch_alerts env dry_run usr city wd acc alerts_needed))
               else acc))"

definition check_user_alerts :: "env \<Rightarrow> world \<Rightarrow> user \<Rightarrow> bool \<Rightarrow> world \<times> nat" where
  "check_user_alerts env w usr dry_run =
     (let favorite_cities = favorite_cities_of w usr in
      if favorite_cities = [] then (w, 0)
      else foldl (check_city env dry_run usr) (w, 0) favorite_cities)"

text \<open>
  The users of a sweep: those whose profile is verified, opted in to e-mail, has the
  sweep's own toggle set and is not deactivated.
\<close>

definition sweep_users :: "(user_profile \<Rightarrow> bool) \<Rightarrow> world \<Rightarrow> user list" where
  "sweep_users toggle w =
     filter (\<lambda>u. case UserProfile_objects w (user_id u) of
                   Some p \<Rightarrow> is_email_verified p \<and> email_notifications p \<and> toggle p
                               \<and> \<not> is_deactivated p
                 | None \<Rightarrow> False)
            (User_objects w)"

text \<open>
  The state of the loop of \<open>handle\<close>: the world, the two counters, and the errors
  handed to \<open>logger.error\<close> with the user's name.
\<close>

record sweep_state =
  sw_world :: world
  sent :: nat
  users_processed :: nat
  logged_errors :: "(string \<times> exn) list"

text \<open>
  The \<open>for user in users\<close> loop of the alert sweep. The call of
  \<open>self.check_user_alerts\<close> is the parameter \<open>check\<close>, which returns the world it
  leaves and either the exception it raised or its result: the loop is then modelled
  for every way the call can fail, also for the failures of the database that the
  model of \<open>check_user_alerts\<close> leaves out. After an exception the \<open>except\<close> branch
  logs and the loop goes on; the user is not counted as processed.
\<close>

fun send_weather_alerts_loop ::
  "(world \<Rightarrow> user \<Rightarrow> world \<times> (exn + nat)) \<Rightarrow> sweep_state \<Rightarrow> user list \<Rightarrow> sweep_state" where
  "send_weather_alerts_loop check st [] = st"
| "send_weather_alerts_loop check st (usr # rest) =
     (case check (sw_world st) usr of
        (w1, Inr result) \<Rightarrow>
          send_weather_alerts_loop check
            (st\<lparr>sw_world := w1,
                sent := (if result \<noteq> 0 then sent st + result else sent st),
                users_processed := users_processed st + 1\<rparr>) rest
      | (w1, Inl e) \<Rightarrow>
          send_weather_alerts_loop check
            (st\<lparr>sw_world := w1, logged_errors := logged_errors st @ [(username usr, e)]\<rparr>)
            rest)"

record sweep_options =
  opt_user :: "string option"
  opt_dry_run :: bool

text \<open>
  \<open>handle\<close> of the alert sweep. With \<open>--user\<close> (a truthy, that is non-empty,
  name) the one user is looked up and checked outside the loop, and an unknown name is
  reported; otherwise the loop runs over the eligible users from zeroed counters.
\<close>

definition send_weather_alerts_handle :: "env \<Rightarrow> sweep_options \<Rightarrow> world \<Rightarrow> sweep_state" where
  "send_weather_alerts_handle env options w =
     (let start = \<lparr>sw_world = w, sent = 0, users_processed = 0, logged_errors = []\<rparr>;
          name = (case opt_user options of None \<Rightarrow> [] | Some n \<Rightarrow> n)
      in if name \<noteq> [] then
           (case find (\<lambda>u. username u = name) (User_objects w) of
              Some usr \<Rightarrow>
                start\<lparr>sw_world := fst (check_user_alerts env w usr (opt_dry_run options))\<rparr>
            | None \<Rightarrow> start)
         else
           send_weather_alerts_loop
             (\<lambda>w usr. case check_user_alerts env w usr (opt_dry_run options) of
                         (w1, n) \<Rightarrow> (w1, Inr n))
             start (sweep_users weather_alerts w))"

section \<open>send_daily_summaries.py: the daily-summary sweep\<close>

text \<open>
  \<open>send_user_summary\<close>: in dry-run mode nothing is sent and the result is \<open>True\<close>;
  otherwise the result is that of the service's \<open>send_daily_weather_summary\<close>, here
  the parameter \<open>send_daily_weather_summary\<close>.
\<close>

definition send_user_summary ::
  "(world \<Rightarrow> user \<Rightarrow> world \<times> (exn + bool)) \<Rightarrow> world \<Rightarrow> user \<Rightarrow> bool \<Rightarrow> world \<times> (exn + bool)" where
  "send_user_summary send_daily_weather_summary w usr dry_run =
     (if dry_run then (w, Inr True)
      else
        (case send_daily_weather_summary w usr of
           (w1, Inl e) \<Rightarrow> (w1, Inl e)
         | (w1, Inr success) \<Rightarrow> if success then (w1, Inr True) else (w1, Inr False)))"

text \<open>The \<open>for user in users\<close> loop of the daily-summary sweep, in the same way.\<close>

fun send_daily_summaries_loop ::
  "(world \<Rightarrow> user \<Rightarrow> world \<times> (exn + bool)) \<Rightarrow> sweep_state \<Rightarrow> user list \<Rightarrow> sweep_state" where
  "send_daily_summaries_loop summary st [] = st"
| "send_daily_summaries_loop summary st (usr # rest) =
     (case summary (sw_world st) usr of
        (w1, Inr result) \<Rightarrow>
          send_daily_summaries_loop summary
            (st\<lparr>sw_world := w1,
                sent := (if result then sent st + 1 else sent st),
                users_processed := users_processed st + 1\<rparr>) rest
      | (w1, Inl e) \<Rightarrow>
          send_daily_summaries_loop summary
            (st\<lparr>sw_world := w1, logged_errors := logged_errors st @ [(username usr, e)]\<rparr>)
            rest)"

text \<open>
  \<open>handle\<close> of the daily-summary sweep. With \<open>--user\<close> the one call is made
  outside the loop, so an exception of it leaves \<open>handle\<close>: it is returned beside the
  state.
\<close>

definition send_daily_summaries_handle ::
  "(world \<Rightarrow> user \<Rightarrow> world \<times> (exn + bool)) \<Rightarrow> sweep_options \<Rightarrow> world
     \<Rightarrow> sweep_state \<times> exn option" where
  "send_daily_summaries_handle send_daily_weather_summary options w =
     (let start = \<lparr>sw_world = w, sent = 0, users_processed = 0, logged_errors = []\<rparr>;
          name = (case opt_user options of None \<Rightarrow> [] | Some n \<Rightarrow> n);
          summary = (\<lambda>w usr. send_user_summary send_daily_weather_summary w usr
                                (opt_dry_run options))
      in if name \<noteq> [] then
           (case find (\<lambda>u. username u = name) (User_objects w) of
              Some usr \<Rightarrow>
                (case summary w usr of
                   (w1, Inl e) \<Rightarrow> (start\<lparr>sw_world := w1\<rparr>, Some e)
                 | (w1, Inr result) \<Rightarrow> (start\<lparr>sw_world := w1\<rparr>, None))
            | None \<Rightarrow> (start, None))
         else (send_daily_summaries_loop summary start (sweep_users daily_summary w), None))"

section \<open>cleanup_old_data.py: retention cleanup\<close>







section \<open>forms.py: validation of the alert preferences\<close>




section \<open>Predicates of the specification\<close>

text \<open>
  The stored invariant of a favorite city: when both thresholds are set, the high one
  is strictly above the low one.
\<close>

definition thresholds_ordered :: "favorite_city \<Rightarrow> bool" where
  "thresholds_ordered city =
     (case (temperature_threshold_high city, temperature_threshold_low city) of
        (Some h, Some l) \<Rightarrow> h > l
      | _ \<Rightarrow> True)"

text \<open>
  The alert types that the four tests of the sweep command's evaluator yield for a
  temperature and a description, in the order of the tests.
\<close>

definition intent_types :: "favorite_city \<Rightarrow> real \<Rightarrow> string \<Rightarrow> string list" where
  "intent_types city t d =
     (if threshold_and_above (temperature_threshold_high city) t
      then [''temperature_high''] else [])
     @ (if threshold_and_below (temperature_threshold_low city) t
        then [''temperature_low''] else [])
     @ (if notify_rain city \<and> sublist ''rain'' (lower d) then [''rain''] else [])
     @ (if notify_extreme_weather city
           \<and> list_ex (\<lambda>c. sublist c (lower d)) severe_conditions
        then [''severe''] else [])"

text \<open>
  The gateway has nothing usable for a city: it returned \<open>None\<close>, or a payload without
  the key \<open>main\<close>.
\<close>

definition no_weather_data :: "env \<Rightarrow> favorite_city \<Rightarrow> bool" where
  "no_weather_data env city =
     (case get_weather_data env (city_name city) of
        Inr None \<Rightarrow> True
      | Inr (Some wd) \<Rightarrow> main wd = None
      | Inl e \<Rightarrow> False)"

section \<open>Concrete inputs\<close>

text \<open>
  One verified, opted-in, active user with one favorite city, a transport that delivers
  every message, and a provider that times out unless a test supplies the payload.
\<close>

definition ada :: user where
  "ada = \<lparr>user_id = 1, username = ''ada'', email = ''ada@example.org''\<rparr>"

definition ada_profile :: user_profile where
  "ada_profile =
     \<lparr>is_email_verified = True, email_notifications = True, weather_alerts = True,
      daily_summary = True, severe_weather_alerts = True, is_deactivated = False\<rparr>"

definition oslo :: favorite_city where
  "oslo =
     \<lparr>fc_user = 1, city_name = ''Oslo'', country = ''NO'',
      temperature_threshold_high = Some 35, temperature_threshold_low = Some 0,
      notify_rain = True, notify_extreme_weather = True\<rparr>"

definition payload :: "real \<Rightarrow> string \<Rightarrow> weather_data" where
  "payload t d = \<lparr>main = Some \<lparr>temp = Some t\<rparr>, weather = Some [\<lparr>description = Some d\<rparr>]\<rparr>"

definition test_env :: env where
  "test_env =
     \<lparr>http_get = (\<lambda>city. Inl Timeout),
      render_to_string = (\<lambda>template usr alert. Inr ''<p>alert</p>''),
      strip_tags = (\<lambda>html. ''alert''),
      email_send = (\<lambda>before message. None),
      str_float = (\<lambda>x. ''?''),
      title = (\<lambda>s. s),
      timezone_now = 1000,
      DEFAULT_FROM_EMAIL = ''noreply@example.org''\<rparr>"

definition test_world :: world where
  "test_world =
     \<lparr>User_objects = [ada],
      UserProfile_objects = [1 \<mapsto> ada_profile],
      FavoriteCity_objects = [oslo],
      WeatherHistory_objects = [],
      WeatherForecast_objects = [],
      WeatherAlert_objects = [],
      EmailNotification_objects = [],
      next_alert_id = 0,
      send_attempts = []\<rparr>"

text \<open>A transport that refuses every message, and an alert of the user's, not yet sent.\<close>

definition refusing_env :: env where
  "refusing_env = test_env\<lparr>email_send := (\<lambda>before message. Some OtherError)\<rparr>"

definition oslo_alert :: weather_alert where
  "oslo_alert =
     \<lparr>wa_id = 0, wa_user = ada, wa_city_name = ''Oslo'', alert_type = ''rain'',
      wa_message = ''Rain alert for Oslo: Light Rain'', wa_temperature = None,
      weather_condition = ''light rain'', wa_created_at = 900, wa_is_sent = False,
      wa_sent_at = None\<rparr>"
















section \<open>The eligibility gate\<close>

text \<open>
  Claim C3. \<open>can_send_notification\<close> returns true exactly when the user has a profile
  with \<open>email_notifications\<close> set, \<open>is_deactivated\<close> clear and \<open>is_email_verified\<close>
  set. Whatever the other two fields of a profile are, switching \<open>email_notifications\<close>
  off, or \<open>is_deactivated\<close> on, or \<open>is_email_verified\<close> off makes the gate return
  false.
\<close>

theorem can_send_notification_strict_and:
  "(can_send_notification w usr \<longleftrightarrow>
      (\<exists>p. UserProfile_objects w (user_id usr) = Some p
           \<and> email_notifications p \<and> \<not> is_deactivated p \<and> is_email_verified p))
   \<and> \<not> can_send_notification
         (w\<lparr>UserProfile_objects :=
              (UserProfile_objects w)(user_id usr \<mapsto> p\<lparr>email_notifications := False\<rparr>)\<rparr>) usr
   \<and> \<not> can_send_notification
         (w\<lparr>UserProfile_objects :=
              (UserProfile_objects w)(user_id usr \<mapsto> p\<lparr>is_deactivated := True\<rparr>)\<rparr>) usr
   \<and> \<not> can_send_notification
         (w\<lparr>UserProfile_objects :=
              (UserProfile_objects w)(user_id usr \<mapsto> p\<lparr>is_email_verified := False\<rparr>)\<rparr>) usr"
  by (auto simp: can_send_notification_def split: option.splits)

text \<open>
  Claim C4. For a user who fails the gate, each of \<open>create_temperature_alert\<close>,
  \<open>create_rain_alert\<close> and \<open>create_severe_weather_alert\<close> returns the world it was
  given: no alert row, no audit row, no message handed to the transport. The sender
  itself, given an alert of that user, returns \<open>False\<close> and the same world.
\<close>

theorem ineligible_dispatch_is_noop:
  assumes "\<not> can_send_notification w usr"
  shows "create_temperature_alert env w usr city temperature kind = w
       \<and> create_rain_alert env w usr city descr = w
       \<and> create_severe_weather_alert env w usr city descr = w
       \<and> (wa_user alert = usr \<longrightarrow> send_weather_alert_email env w alert = (w, False))"
  using assms
  by (simp add: create_temperature_alert_def create_rain_alert_def
      create_severe_weather_alert_def send_weather_alert_email_def)

theorem ineligible_dispatch_is_noop_witness:
  "\<not> can_send_notification
       (test_world\<lparr>UserProfile_objects := [1 \<mapsto> ada_profile\<lparr>is_deactivated := True\<rparr>]\<rparr>) ada
   \<and> create_temperature_alert test_env
        (test_world\<lparr>UserProfile_objects := [1 \<mapsto> ada_profile\<lparr>is_deactivated := True\<rparr>]\<rparr>)
        ada ''Oslo'' 40 ''high''
       = test_world\<lparr>UserProfile_objects := [1 \<mapsto> ada_profile\<lparr>is_deactivated := True\<rparr>]\<rparr>
   \<and> create_severe_weather_alert test_env
        (test_world\<lparr>UserProfile_objects := [1 \<mapsto> ada_profile\<lparr>is_deactivated := True\<rparr>]\<rparr>)
        ada ''Oslo'' ''thunderstorm''
       = test_world\<lparr>UserProfile_objects := [1 \<mapsto> ada_profile\<lparr>is_deactivated := True\<rparr>]\<rparr>"
proof -
  have h: "\<not> can_send_notification
             (test_world\<lparr>UserProfile_objects := [1 \<mapsto> ada_profile\<lparr>is_deactivated := True\<rparr>]\<rparr>)
             ada"
    by (simp add: can_send_notification_def ada_def)
  show ?thesis using h ineligible_dispatch_is_noop [OF h] by simp
qed

section \<open>The threshold evaluators\<close>

lemmas evaluator_defs =
  analyze_weather_conditions_def check_weather_conditions_for_alerts_def
  get_temperature_def get_description_def threshold_and_above_def threshold_and_below_def
  str_threshold_def lower_def lower_char_def severe_conditions_def Let_def sublist_code
  payload_def oslo_def

lemmas service_defs =
  can_send_notification_def create_temperature_alert_def create_rain_alert_def
  create_severe_weather_alert_def WeatherAlert_create_def send_weather_alert_email_def
  save_alert_def test_world_def test_env_def ada_def ada_profile_def

text \<open>
  What the sweep command's evaluator returns, whenever it returns: the types of its
  intents are those of the four tests, in their order.
\<close>

lemma analyze_weather_conditions_types:
  assumes "analyze_weather_conditions f wd city = Inr intents"
  shows "\<exists>t d. get_temperature wd = Inr t \<and> get_description wd = Inr d \<and>
           map fst intents = intent_types city t d"
proof -
  obtain t where t: "get_temperature wd = Inr t"
    using assms by (cases "get_temperature wd") (simp_all add: analyze_weather_conditions_def)
  obtain d where d: "get_description wd = Inr d"
    using assms t by (cases "get_description wd") (simp_all add: analyze_weather_conditions_def)
  have "map fst intents = intent_types city t d"
    using assms t d
    by (cases "threshold_and_above (temperature_threshold_high city) t";
        cases "threshold_and_below (temperature_threshold_low city) t";
        cases "notify_rain city \<and> sublist ''rain'' (lower d)";
        cases "notify_extreme_weather city
                 \<and> list_ex (\<lambda>c. sublist c (lower d)) severe_conditions")
       (auto simp: analyze_weather_conditions_def intent_types_def Let_def)
  with t d show ?thesis by blast
qed

lemma not_above_and_below:
  assumes "thresholds_ordered city"
  shows "\<not> (threshold_and_above (temperature_threshold_high city) t
            \<and> threshold_and_below (temperature_threshold_low city) t)"
  using assms
  by (auto simp: thresholds_ordered_def threshold_and_above_def threshold_and_below_def
      split: option.splits)

lemma intent_types_bounded:
  assumes "thresholds_ordered city"
  shows "\<not> (''temperature_high'' \<in> set (intent_types city t d)
            \<and> ''temperature_low'' \<in> set (intent_types city t d))
       \<and> distinct (intent_types city t d) \<and> length (intent_types city t d) \<le> 4"
  using not_above_and_below [OF assms, of t]
  by (cases "threshold_and_above (temperature_threshold_high city) t";
      cases "threshold_and_below (temperature_threshold_low city) t";
      cases "notify_rain city \<and> sublist ''rain'' (lower d)";
      cases "notify_extreme_weather city
               \<and> list_ex (\<lambda>c. sublist c (lower d)) severe_conditions")
     (auto simp: intent_types_def)

text \<open>
  Claim C1, at the input where the code departs from it. The favorite city has its low
  threshold set to 0 and the temperature is -5, below it. The claim asks for a
  \<open>temperature_low\<close> intent, a threshold of 0.0 counting as set. The sweep command's
  evaluator returns no intent, and the service's evaluator, for an eligible user, leaves
  the world as it was: the truthiness test takes the threshold 0 for an unset one. With
  the low threshold at 1 both evaluators raise the alert, and a high threshold of 0 is
  ignored in the same way at the temperature 5.
\<close>

theorem zero_threshold_is_ignored:
  "temperature_threshold_low oslo = Some 0
   \<and> get_temperature (payload (- 5) ''clear sky'') = Inr (- 5) \<and> (- 5 :: real) < 0
   \<and> analyze_weather_conditions (str_float test_env) (payload (- 5) ''clear sky'') oslo = Inr []
   \<and> can_send_notification test_world ada
   \<and> check_weather_conditions_for_alerts test_env test_world ada oslo
        (payload (- 5) ''clear sky'') = test_world
   \<and> map fst (projr (analyze_weather_conditions (str_float test_env)
        (payload (- 5) ''clear sky'') (oslo\<lparr>temperature_threshold_low := Some 1\<rparr>)))
       = [''temperature_low'']
   \<and> map alert_type (WeatherAlert_objects
        (check_weather_conditions_for_alerts test_env test_world ada
           (oslo\<lparr>temperature_threshold_low := Some 1\<rparr>) (payload (- 5) ''clear sky'')))
       = [''temperature_low'']
   \<and> analyze_weather_conditions (str_float test_env) (payload 5 ''clear sky'')
        (oslo\<lparr>temperature_threshold_high := Some 0, temperature_threshold_low := None\<rparr>)
       = Inr []"
  by (simp add: evaluator_defs service_defs)

text \<open>
  Claim C2, at the input where the code departs from it. The description is \<open>Hail\<close> and
  the city asks for extreme-weather alerts. The sweep command's evaluator returns the
  \<open>severe\<close> intent, as the claim says. The service's evaluator, for an eligible user,
  leaves the world as it was: its own list of conditions lacks \<open>hail\<close>. On
  \<open>Thunderstorm\<close> the service does create the \<open>severe\<close> alert.
\<close>

theorem hail_is_severe_for_the_command_only:
  "notify_extreme_weather oslo \<and> sublist ''hail'' (lower ''Hail'')
   \<and> analyze_weather_conditions (str_float test_env) (payload 10 ''Hail'') oslo
       = Inr [(''severe'', ''Severe weather: hail'')]
   \<and> can_send_notification test_world ada
   \<and> check_weather_conditions_for_alerts test_env test_world ada oslo (payload 10 ''Hail'')
       = test_world
   \<and> map alert_type (WeatherAlert_objects
        (check_weather_conditions_for_alerts test_env test_world ada oslo
           (payload 10 ''Thunderstorm''))) = [''severe'']"
  by (simp add: evaluator_defs service_defs)

text \<open>
  Claim C10. For a favorite city whose thresholds satisfy the stored invariant, whenever
  the evaluator returns a list of intents, the list does not hold both a
  \<open>temperature_high\<close> and a \<open>temperature_low\<close> intent, no type occurs twice in it,
  and it has at most four entries.
\<close>

theorem analyze_intents_bounded:
  assumes "thresholds_ordered city"
      and "analyze_weather_conditions f wd city = Inr intents"
  shows "\<not> (''temperature_high'' \<in> set (map fst intents)
            \<and> ''temperature_low'' \<in> set (map fst intents))
       \<and> distinct (map fst intents) \<and> length intents \<le> 4"
proof -
  from analyze_weather_conditions_types [OF assms(2)] obtain t d where
    types: "map fst intents = intent_types city t d"
    by blast
  have "length intents = length (intent_types city t d)"
    using types by (metis length_map)
  with intent_types_bounded [OF assms(1), of t d] types show ?thesis by simp
qed

theorem analyze_intents_bounded_witness:
  "thresholds_ordered oslo
   \<and> analyze_weather_conditions (str_float test_env) (payload 40 ''Heavy rain and hail'') oslo
       = Inr [(''temperature_high'',
               ''High temperature: ?'' @ degree_sign @ ''C (threshold: ?'' @ degree_sign
                 @ ''C)''),
              (''rain'', ''Rain expected: heavy rain and hail''),
              (''severe'', ''Severe weather: heavy rain and hail'')]
   \<and> ''temperature_low''
       \<notin> set (map fst
           [(''temperature_high'',
               ''High temperature: ?'' @ degree_sign @ ''C (threshold: ?'' @ degree_sign
                 @ ''C)''),
              (''rain'', ''Rain expected: heavy rain and hail''),
              (''severe'', ''Severe weather: heavy rain and hail'')])"
proof -
  have h1: "thresholds_ordered oslo"
    by (simp add: thresholds_ordered_def oslo_def)
  have h2: "analyze_weather_conditions (str_float test_env)
              (payload 40 ''Heavy rain and hail'') oslo
       = Inr [(''temperature_high'',
               ''High temperature: ?'' @ degree_sign @ ''C (threshold: ?'' @ degree_sign
                 @ ''C)''),
              (''rain'', ''Rain expected: heavy rain and hail''),
              (''severe'', ''Severe weather: heavy rain and hail'')]"
    by (simp add: evaluator_defs test_env_def)
  from analyze_intents_bounded [OF h1 h2] h1 h2 show ?thesis
    by simp
qed

section \<open>Unavailable weather\<close>

lemma check_city_no_weather_data:
  assumes "no_weather_data env city"
  shows "check_city env dry usr acc city = acc"
  using assms
  by (auto simp: no_weather_data_def check_city_def split: sum.splits option.splits)

lemma foldl_check_city_no_weather_data:
  assumes "\<forall>city \<in> set cities. no_weather_data env city"
  shows "foldl (check_city env dry usr) acc cities = acc"
  using assms by (induction cities arbitrary: acc) (simp_all add: check_city_no_weather_data)

lemma check_cities_for_user_no_weather_data:
  assumes "\<forall>city \<in> set cities. no_weather_data env city"
  shows "check_cities_for_user env usr w cities = (w, None)"
  using assms
  by (induction cities)
     (auto simp: no_weather_data_def check_city_for_user_def split: sum.splits option.splits)

text \<open>
  Claim C5. When the fetch raises a \<open>RequestException\<close> (network error, timeout, error
  status), \<open>get_weather_data\<close> returns \<open>None\<close> instead of raising. For a city for which
  it returns \<open>None\<close> or a payload without \<open>main\<close>, the step of the sweep for that city,
  in the command and in the service alike, leaves the world and the counter of alerts as
  they were: no intent is dispatched, no alert row and no audit row is created, nothing
  is handed to the transport. When this holds of all the favorite cities of a user, the
  whole check of that user leaves the world unchanged and counts no alert.
\<close>

theorem unavailable_weather_no_effects:
  "(is_RequestException e \<and> http_get env c = Inl e \<longrightarrow> get_weather_data env c = Inr None)
   \<and> (no_weather_data env city \<longrightarrow>
        check_city env dry usr (w, n) city = (w, n)
        \<and> check_city_for_user env usr w city = Inr w)
   \<and> ((\<forall>city \<in> set (favorite_cities_of w usr). no_weather_data env city) \<longrightarrow>
        check_user_alerts env w usr dry = (w, 0)
        \<and> check_weather_alerts_for_user env w usr = (w, None))"
proof (intro conjI impI)
  assume "is_RequestException e \<and> http_get env c = Inl e"
  then show "get_weather_data env c = Inr None"
    by (simp add: get_weather_data_def)
next
  assume "no_weather_data env city"
  then show "check_city env dry usr (w, n) city = (w, n)"
    by (rule check_city_no_weather_data)
next
  assume "no_weather_data env city"
  then show "check_city_for_user env usr w city = Inr w"
    by (auto simp: no_weather_data_def check_city_for_user_def split: sum.splits option.splits)
next
  assume "\<forall>city \<in> set (favorite_cities_of w usr). no_weather_data env city"
  then show "check_user_alerts env w usr dry = (w, 0)"
    by (simp add: check_user_alerts_def Let_def foldl_check_city_no_weather_data)
next
  assume "\<forall>city \<in> set (favorite_cities_of w usr). no_weather_data env city"
  then show "check_weather_alerts_for_user env w usr = (w, None)"
    by (simp add: check_weather_alerts_for_user_def check_cities_for_user_no_weather_data)
qed

theorem unavailable_weather_no_effects_witness:
  "is_RequestException Timeout \<and> http_get test_env ''Oslo'' = Inl Timeout
   \<and> get_weather_data test_env ''Oslo'' = Inr None
   \<and> no_weather_data test_env oslo
   \<and> check_city test_env False ada (test_world, 0) oslo = (test_world, 0)
   \<and> check_city_for_user test_env ada test_world oslo = Inr test_world
   \<and> check_user_alerts test_env test_world ada False = (test_world, 0)"
proof -
  have a: "is_RequestException Timeout \<and> http_get test_env ''Oslo'' = Inl Timeout"
    by (simp add: test_env_def)
  have g: "get_weather_data test_env ''Oslo'' = Inr None"
    using a unavailable_weather_no_effects [of Timeout test_env "''Oslo''"] by simp
  have b: "no_weather_data test_env oslo"
    using g by (simp add: no_weather_data_def oslo_def)
  have c: "\<forall>city \<in> set (favorite_cities_of test_world ada). no_weather_data test_env city"
    using b by (simp add: favorite_cities_of_def test_world_def)
  show ?thesis
    using a g b c
      unavailable_weather_no_effects [of Timeout test_env "''Oslo''" oslo False ada test_world 0]
    by simp
qed

section \<open>The sender of alert e-mails\<close>

lemma save_alert_mem: "a \<in> set (save_alert a tbl)"
  by (auto simp: save_alert_def)

lemmas run_defs = send_weather_alert_email_def can_send_notification_def test_world_def
  test_env_def refusing_env_def oslo_alert_def ada_def ada_profile_def save_alert_def Let_def

text \<open>
  Claim C6. \<open>send_weather_alert_email\<close> always returns a flag. Either no message was
  handed to the transport and the flag is \<open>False\<close>, or one message was, and the flag is
  \<open>True\<close> exactly when the transport raised nothing on it. When the flag is \<open>True\<close>,
  one audit row, marked sent and of type \<open>weather_alert\<close>, was added and the alert was
  saved with \<open>is_sent\<close> set and \<open>sent_at\<close> filled. When it is \<open>False\<close>, the audit
  table and the alert table are as before: no audit row, and the alert stays unsent.
\<close>

theorem send_weather_alert_email_outcome:
  assumes "send_weather_alert_email env w alert = (w', ok)"
  shows "(send_attempts w' = send_attempts w \<and> \<not> ok
          \<or> (\<exists>m. send_attempts w' = send_attempts w @ [m]
                 \<and> (ok \<longleftrightarrow> email_send env (send_attempts w) m = None)))
       \<and> (ok \<longrightarrow>
            (\<exists>n. EmailNotification_objects w' = EmailNotification_objects w @ [n]
                 \<and> en_is_sent n \<and> email_type n = ''weather_alert'')
            \<and> WeatherAlert_objects w' =
                save_alert (alert\<lparr>wa_is_sent := True, wa_sent_at := Some (timezone_now env)\<rparr>)
                  (WeatherAlert_objects w)
            \<and> alert\<lparr>wa_is_sent := True, wa_sent_at := Some (timezone_now env)\<rparr>
                \<in> set (WeatherAlert_objects w'))
       \<and> (\<not> ok \<longrightarrow>
            EmailNotification_objects w' = EmailNotification_objects w
            \<and> WeatherAlert_objects w' = WeatherAlert_objects w)"
  using assms
  by (auto simp: send_weather_alert_email_def Let_def save_alert_mem
      split: if_splits sum.splits option.splits)

theorem send_weather_alert_email_outcome_witness:
  "snd (send_weather_alert_email test_env (test_world\<lparr>WeatherAlert_objects := [oslo_alert]\<rparr>)
          oslo_alert)
   \<and> length (EmailNotification_objects
        (fst (send_weather_alert_email test_env
               (test_world\<lparr>WeatherAlert_objects := [oslo_alert]\<rparr>) oslo_alert))) = 1
   \<and> \<not> snd (send_weather_alert_email refusing_env
               (test_world\<lparr>WeatherAlert_objects := [oslo_alert]\<rparr>) oslo_alert)
   \<and> length (send_attempts
        (fst (send_weather_alert_email refusing_env
               (test_world\<lparr>WeatherAlert_objects := [oslo_alert]\<rparr>) oslo_alert))) = 1
   \<and> EmailNotification_objects
        (fst (send_weather_alert_email refusing_env
               (test_world\<lparr>WeatherAlert_objects := [oslo_alert]\<rparr>) oslo_alert)) = []
   \<and> WeatherAlert_objects
        (fst (send_weather_alert_email refusing_env
               (test_world\<lparr>WeatherAlert_objects := [oslo_alert]\<rparr>) oslo_alert)) = [oslo_alert]"
proof -
  let ?w = "test_world\<lparr>WeatherAlert_objects := [oslo_alert]\<rparr>"
  have ok: "snd (send_weather_alert_email test_env ?w oslo_alert)"
    by (simp add: run_defs)
  have ko: "\<not> snd (send_weather_alert_email refusing_env ?w oslo_alert)"
    by (simp add: run_defs)
  have att: "length (send_attempts (fst (send_weather_alert_email refusing_env ?w oslo_alert))) = 1"
    by (simp add: run_defs)
  have w0: "EmailNotification_objects ?w = []" "WeatherAlert_objects ?w = [oslo_alert]"
    by (simp_all add: test_world_def)
  have run1: "send_weather_alert_email test_env ?w oslo_alert =
      (fst (send_weather_alert_email test_env ?w oslo_alert),
       snd (send_weather_alert_email test_env ?w oslo_alert))"
    by simp
  have run2: "send_weather_alert_email refusing_env ?w oslo_alert =
      (fst (send_weather_alert_email refusing_env ?w oslo_alert),
       snd (send_weather_alert_email refusing_env ?w oslo_alert))"
    by simp
  from send_weather_alert_email_outcome [OF run1] ok
  have "\<exists>n. EmailNotification_objects (fst (send_weather_alert_email test_env ?w oslo_alert))
          = EmailNotification_objects ?w @ [n]"
    by blast
  then have audit: "length (EmailNotification_objects
      (fst (send_weather_alert_email test_env ?w oslo_alert))) = 1"
    using w0 by auto
  from send_weather_alert_email_outcome [OF run2] ko
  have kept: "EmailNotification_objects (fst (send_weather_alert_email refusing_env ?w oslo_alert))
          = EmailNotification_objects ?w
      \<and> WeatherAlert_objects (fst (send_weather_alert_email refusing_env ?w oslo_alert))
          = WeatherAlert_objects ?w"
    by blast
  from ok ko att audit kept w0 show ?thesis by simp
qed

section \<open>Failures of one user in the sweeps\<close>







text \<open>Without \<open>--user\<close>, each \<open>handle\<close> is its loop over the users of the sweep.\<close>

lemma send_weather_alerts_handle_loop:
  "opt_user options = None \<Longrightarrow>
   send_weather_alerts_handle env options w =
     send_weather_alerts_loop
       (\<lambda>w usr. case check_user_alerts env w usr (opt_dry_run options) of
                   (w1, n) \<Rightarrow> (w1, Inr n))
       \<lparr>sw_world = w, sent = 0, users_processed = 0, logged_errors = []\<rparr>
       (sweep_users weather_alerts w)"
  by (simp add: send_weather_alerts_handle_def)

lemma send_daily_summaries_handle_loop:
  "opt_user options = None \<Longrightarrow>
   send_daily_summaries_handle send_daily_weather_summary options w =
     (send_daily_summaries_loop
        (\<lambda>w usr. send_user_summary send_daily_weather_summary w usr (opt_dry_run options))
        \<lparr>sw_world = w, sent = 0, users_processed = 0, logged_errors = []\<rparr>
        (sweep_users daily_summary w), None)"
  by (simp add: send_daily_summaries_handle_def)



section \<open>Retention cleanup\<close>









text \<open>The writer of audit rows in the model keeps every row marked as sent.\<close>

lemma send_weather_alert_email_all_sent:
  assumes "\<forall>n \<in> set (EmailNotification_objects w). en_is_sent n"
  shows "\<forall>n \<in> set (EmailNotification_objects (fst (send_weather_alert_email env w alert))).
           en_is_sent n"
  using assms
  by (auto simp: send_weather_alert_email_def Let_def split: sum.splits option.splits)




section \<open>Validation of the thresholds at save time\<close>



end
